theory Spec2Isabelle
  imports Main
begin

section \<open>InputHub: raising named events from hardware events\<close>

text \<open>
  The two later variants of the InputHub keep, per hardware event, a local list
  \<open>raisedEvents\<close> of the names already notified. The hub's registered events are
  arrays of (name, trigger) objects; \<open>onEventObservable.notifyObservers\<close> is modelled by
  the list of names notified, in order.

  Optional booleans of a trigger (\<open>released?\<close>, \<open>altModifier?\<close>, ...) are
  \<open>bool option\<close>, \<open>None\<close> being \<open>undefined\<close>; \<open>truthy\<close> is the JavaScript test
  \<open>if (b)\<close> on such a field. The modifier table is a dictionary from strings to
  booleans, a missing key reading as \<open>undefined\<close>.
\<close>

datatype InputHubDevice = Keyboard | Mouse

record IInputHubEventTrigger =
  device :: InputHubDevice
  altModifier :: "bool option"
  shiftModifier :: "bool option"
  ctrlModifier :: "bool option"
  released :: "bool option"
  rightModifier :: "bool option"

record IInputHubKeyboardEventTrigger = IInputHubEventTrigger +
  keyCode :: int

record IInputHubMouseEventTrigger = IInputHubEventTrigger +
  button :: int

record KeyboardHubEvent =
  kb_name :: string
  kb_trigger :: IInputHubKeyboardEventTrigger

record MouseHubEvent =
  ms_name :: string
  ms_trigger :: IInputHubMouseEventTrigger

datatype KeyboardEventTypes = KEYDOWN | KEYUP

datatype PointerEventTypes =
  POINTERDOWN | POINTERUP | POINTERMOVE | POINTERWHEEL | POINTERPICK | POINTERTAP
  | POINTERDOUBLETAP

text \<open>The fields of the DOM keyboard event that the observers read.\<close>

record KeyboardEventData =
  ev_keyCode :: int
  ev_location :: int
  altKey :: bool
  shiftKey :: bool
  ctrlKey :: bool

record KeyboardInfo =
  kb_type :: KeyboardEventTypes
  kb_event :: KeyboardEventData

record PointerInfo =
  ptr_type :: PointerEventTypes
  ptr_button :: int

record InputHub =
  keyboardHubEvents :: "KeyboardHubEvent list"
  mouseHubEvents :: "MouseHubEvent list"
  modifierStates :: "string \<rightharpoonup> bool"

definition truthy :: "bool option \<Rightarrow> bool" where
  "truthy b = (b = Some True)"

subsection \<open>Variant with keyboard and mouse triggers (part 000)\<close>

definition checkKeyModifier ::
  "(string \<rightharpoonup> bool) \<Rightarrow> string \<Rightarrow> 'a IInputHubEventTrigger_scheme \<Rightarrow> bool" where
  "checkKeyModifier ms prefix trigger =
     (if \<not> truthy (ms prefix) then False
      else (case rightModifier trigger of
              None \<Rightarrow> True
            | Some r \<Rightarrow>
                if r \<and> \<not> truthy (ms (prefix @ ''Right'')) then False
                else if r = False \<and> \<not> truthy (ms (prefix @ ''Left'')) then False
                else True))"

definition checkModifier ::
  "(string \<rightharpoonup> bool) \<Rightarrow> 'a IInputHubEventTrigger_scheme \<Rightarrow> bool" where
  "checkModifier ms trigger =
     (if truthy (altModifier trigger) \<and> \<not> checkKeyModifier ms ''alt'' trigger then False
      else if truthy (shiftModifier trigger) \<and> \<not> checkKeyModifier ms ''shift'' trigger
        then False
      else if truthy (ctrlModifier trigger) \<and> \<not> checkKeyModifier ms ''ctrl'' trigger
        then False
      else True)"

text \<open>
  The \<open>for ... of\<close> loop of the pointer observer. The accumulators are the local array
  \<open>raisedEvents\<close> and the names passed to \<open>notifyObservers\<close> so far; the loop returns
  the latter.
\<close>

fun pointerLoop ::
  "(string \<rightharpoonup> bool) \<Rightarrow> PointerInfo \<Rightarrow> MouseHubEvent list \<Rightarrow> string list \<Rightarrow> string list
     \<Rightarrow> string list" where
  "pointerLoop ms evt [] raisedEvents notified = notified"
| "pointerLoop ms evt (mouseEvent # rest) raisedEvents notified =
     (let trigger = ms_trigger mouseEvent in
      if button trigger = ptr_button evt \<and>
         (\<not> truthy (released trigger) \<and> ptr_type evt = POINTERDOWN \<or>
          truthy (released trigger) \<and> ptr_type evt = POINTERUP)
      then
        if \<not> checkModifier ms trigger then pointerLoop ms evt rest raisedEvents notified
        else if ms_name mouseEvent \<in> set raisedEvents
          then pointerLoop ms evt rest raisedEvents notified
        else pointerLoop ms evt rest (raisedEvents @ [ms_name mouseEvent])
               (notified @ [ms_name mouseEvent])
      else pointerLoop ms evt rest raisedEvents notified)"

definition pointerObserver :: "InputHub \<Rightarrow> PointerInfo \<Rightarrow> string list" where
  "pointerObserver hub evt = pointerLoop (modifierStates hub) evt (mouseHubEvents hub) [] []"

fun keyboardLoop ::
  "(string \<rightharpoonup> bool) \<Rightarrow> KeyboardInfo \<Rightarrow> KeyboardHubEvent list \<Rightarrow> string list \<Rightarrow> string list
     \<Rightarrow> string list" where
  "keyboardLoop ms evt [] raisedEvents notified = notified"
| "keyboardLoop ms evt (keyboardEvent # rest) raisedEvents notified =
     (let trigger = kb_trigger keyboardEvent in
      if keyCode trigger = ev_keyCode (kb_event evt) \<and>
         (\<not> truthy (released trigger) \<and> kb_type evt = KEYDOWN \<or>
          truthy (released trigger) \<and> kb_type evt = KEYUP)
      then
        if \<not> checkModifier ms trigger then keyboardLoop ms evt rest raisedEvents notified
        else if kb_name keyboardEvent \<in> set raisedEvents
          then keyboardLoop ms evt rest raisedEvents notified
        else keyboardLoop ms evt rest (raisedEvents @ [kb_name keyboardEvent])
               (notified @ [kb_name keyboardEvent])
      else keyboardLoop ms evt rest raisedEvents notified)"

text \<open>
  The keyboard observer returns the hub (its modifier table updated) and the names
  notified. Key codes 16, 17 and 18 (Shift, Ctrl, Alt) only update the table and return.
\<close>

definition setModifier ::
  "string \<Rightarrow> KeyboardInfo \<Rightarrow> (string \<rightharpoonup> bool) \<Rightarrow> (string \<rightharpoonup> bool)" where
  "setModifier prefix evt ms =
     (let ms1 = ms(prefix \<mapsto> (kb_type evt = KEYDOWN)) in
      if ev_location (kb_event evt) = 2
      then ms1(prefix @ ''Right'' \<mapsto> (kb_type evt = KEYDOWN))
      else ms1(prefix @ ''Left'' \<mapsto> (kb_type evt = KEYDOWN)))"

definition keyboardObserver :: "InputHub \<Rightarrow> KeyboardInfo \<Rightarrow> InputHub \<times> string list" where
  "keyboardObserver hub evt =
     (let kbEvent = kb_event evt in
      if ev_keyCode kbEvent = 16
        then (hub\<lparr>modifierStates := setModifier ''shift'' evt (modifierStates hub)\<rparr>, [])
      else if ev_keyCode kbEvent = 17
        then (hub\<lparr>modifierStates := setModifier ''ctrl'' evt (modifierStates hub)\<rparr>, [])
      else if ev_keyCode kbEvent = 18
        then (hub\<lparr>modifierStates := setModifier ''alt'' evt (modifierStates hub)\<rparr>, [])
      else (hub, keyboardLoop (modifierStates hub) evt (keyboardHubEvents hub) [] []))"

subsection \<open>Keyboard-only variant (part 001)\<close>

text \<open>
  Here the pressed state of a modifier is read from the keyboard event itself
  (\<open>keyEvent[prefix + "Key"]\<close>); for a prefix other than alt, shift and ctrl the property
  is missing and the test fails.
\<close>

definition prefixKey :: "KeyboardEventData \<Rightarrow> string \<Rightarrow> bool" where
  "prefixKey keyEvent prefix =
     (if prefix = ''alt'' then altKey keyEvent
      else if prefix = ''shift'' then shiftKey keyEvent
      else if prefix = ''ctrl'' then ctrlKey keyEvent
      else False)"

definition checkKeyModifier1 ::
  "(string \<rightharpoonup> bool) \<Rightarrow> string \<Rightarrow> 'a IInputHubEventTrigger_scheme \<Rightarrow> KeyboardEventData
     \<Rightarrow> bool" where
  "checkKeyModifier1 ms prefix trigger keyEvent =
     (if \<not> prefixKey keyEvent prefix then False
      else (case rightModifier trigger of
              None \<Rightarrow> True
            | Some r \<Rightarrow>
                if r \<and> \<not> truthy (ms (prefix @ ''Right'')) then False
                else if r = False \<and> \<not> truthy (ms (prefix @ ''Left'')) then False
                else True))"

fun keyboardLoop1 ::
  "(string \<rightharpoonup> bool) \<Rightarrow> KeyboardInfo \<Rightarrow> KeyboardHubEvent list \<Rightarrow> string list \<Rightarrow> string list
     \<Rightarrow> string list" where
  "keyboardLoop1 ms evt [] raisedEvents notified = notified"
| "keyboardLoop1 ms evt (keyboardEvent # rest) raisedEvents notified =
     (let trigger = kb_trigger keyboardEvent; kbEvent = kb_event evt in
      if keyCode trigger = ev_keyCode kbEvent \<and>
         (\<not> truthy (released trigger) \<and> kb_type evt = KEYDOWN \<or>
          truthy (released trigger) \<and> kb_type evt = KEYUP)
      then
        if truthy (altModifier trigger) \<and> \<not> checkKeyModifier1 ms ''alt'' trigger kbEvent
          then keyboardLoop1 ms evt rest raisedEvents notified
        else if truthy (shiftModifier trigger)
                \<and> \<not> checkKeyModifier1 ms ''shift'' trigger kbEvent
          then keyboardLoop1 ms evt rest raisedEvents notified
        else if truthy (ctrlModifier trigger) \<and> \<not> checkKeyModifier1 ms ''ctrl'' trigger kbEvent
          then keyboardLoop1 ms evt rest raisedEvents notified
        else if kb_name keyboardEvent \<in> set raisedEvents
          then keyboardLoop1 ms evt rest raisedEvents notified
        else keyboardLoop1 ms evt rest (raisedEvents @ [kb_name keyboardEvent])
               (notified @ [kb_name keyboardEvent])
      else keyboardLoop1 ms evt rest raisedEvents notified)"

definition setSideModifier ::
  "string \<Rightarrow> KeyboardInfo \<Rightarrow> (string \<rightharpoonup> bool) \<Rightarrow> (string \<rightharpoonup> bool)" where
  "setSideModifier prefix evt ms =
     (if ev_location (kb_event evt) = 2
      then ms(prefix @ ''Right'' \<mapsto> (kb_type evt = KEYDOWN))
      else ms(prefix @ ''Left'' \<mapsto> (kb_type evt = KEYDOWN)))"

definition keyboardObserver1 :: "InputHub \<Rightarrow> KeyboardInfo \<Rightarrow> InputHub \<times> string list" where
  "keyboardObserver1 hub evt =
     (let kbEvent = kb_event evt in
      if ev_keyCode kbEvent = 16
        then (hub\<lparr>modifierStates := setSideModifier ''shift'' evt (modifierStates hub)\<rparr>, [])
      else if ev_keyCode kbEvent = 17
        then (hub\<lparr>modifierStates := setSideModifier ''ctrl'' evt (modifierStates hub)\<rparr>, [])
      else if ev_keyCode kbEvent = 18
        then (hub\<lparr>modifierStates := setSideModifier ''alt'' evt (modifierStates hub)\<rparr>, [])
      else (hub, keyboardLoop1 (modifierStates hub) evt (keyboardHubEvents hub) [] []))"

section \<open>Graph editor: data model\<close>

text \<open>
  The editor keeps a diagram of nodes, ports and links in step with a node material made
  of blocks and connection points. Nodes, ports and connection points are objects that
  are shared and mutated through references, so they live in heaps indexed by
  references; blocks are never mutated by the editor and carry their identity in
  \<open>uniqueId\<close>.

  The value held by a connection point is any JavaScript value. The literal values
  the editor creates are instances of six classes of the math library; a connection
  point may also hold a number (an integer here, or NaN), a string or a boolean.
  \<open>None\<close> stands for \<open>null\<close> and \<open>undefined\<close>. \<open>truthyValue\<close> is the JavaScript test
  \<open>if (v)\<close>: objects are truthy; \<open>null\<close>, \<open>undefined\<close>, \<open>0\<close>, NaN, the empty string and
  \<open>false\<close> are falsy.
\<close>

type_synonym cp_ref = nat
type_synonym port_ref = nat
type_synonym node_ref = nat

datatype literal =
  Vector2 int int
  | Vector3 int int int
  | Vector4 int int int int
  | Matrix "int list"
  | Color3 int int int
  | Color4 int int int int
  | NumberValue int
  | NaNValue
  | StringValue string
  | BooleanValue bool

fun truthyValue :: "literal option \<Rightarrow> bool" where
  "truthyValue None = False"
| "truthyValue (Some (NumberValue k)) = (k \<noteq> 0)"
| "truthyValue (Some NaNValue) = False"
| "truthyValue (Some (StringValue str)) = (str \<noteq> [])"
| "truthyValue (Some (BooleanValue v)) = v"
| "truthyValue (Some v) = True"

text \<open>
  Modelled from the spec: the factory methods of the math library are not in src. The
  spec names their results: the zero vectors, the identity matrix (sixteen entries, row
  by row) and white.
\<close>

definition Vector2_Zero :: literal where
  "Vector2_Zero = Vector2 0 0"

definition Vector3_Zero :: literal where
  "Vector3_Zero = Vector3 0 0 0"

definition Vector4_Zero :: literal where
  "Vector4_Zero = Vector4 0 0 0 0"

definition Matrix_Identity :: literal where
  "Matrix_Identity = Matrix [1, 0, 0, 0,  0, 1, 0, 0,  0, 0, 1, 0,  0, 0, 0, 1]"

definition Color3_White :: literal where
  "Color3_White = Color3 1 1 1"

datatype block_class = TextureBlock | LightBlock | OtherBlock

record NodeMaterialBlock =
  uniqueId :: nat
  blockClass :: block_class
  isFinalMerger :: bool

record NodeMaterialConnectionPoint =
  cp_name :: string
  cp_value :: "literal option"

text \<open>The two arrays of output roots that \<open>build\<close> reads from the material.\<close>

record NodeMaterial =
  vertexOutputNodes :: "NodeMaterialBlock list"
  fragmentOutputNodes :: "NodeMaterialBlock list"

record NodeCreationOptions =
  column :: int
  nodeMaterialBlock :: "NodeMaterialBlock option"
  type_name :: "string option"
  opt_connection :: "cp_ref option"

datatype node_variant = TextureNodeModel | LightNodeModel | GenericNodeModel | InputNodeModel

record DefaultNodeModel =
  variant :: node_variant
  node_x :: int
  node_y :: int
  block :: "NodeMaterialBlock option"
  node_connection :: "cp_ref option"
  node_ports :: "port_ref list"

record DefaultPortModel =
  port_name :: string
  position :: string
  connection :: "cp_ref option"
  defaultValue :: "literal option"
  parent :: "node_ref option"

record LinkModel =
  sourcePort :: "port_ref option"
  targetPort :: "port_ref option"

record DiagramModel =
  model_nodes :: "node_ref list"
  model_links :: "LinkModel list"

record LogEntry =
  message :: string
  isError :: bool

text \<open>
  The calls the editor makes on the node material and its connection points, in order.
\<close>

datatype semantic_call =
  ConnectTo cp_ref cp_ref
  | DisconnectFrom cp_ref cp_ref
  | Build
  | AddOutputNode NodeMaterialBlock
  | RemoveOutputNode NodeMaterialBlock

text \<open>
  The state of the component. \<open>model\<close> is the object held in \<open>_model\<close>, \<open>modelId\<close>
  its identity (each \<open>new DiagramModel()\<close> is a new object) and \<open>engineModel\<close> the
  identity of the model last given to the engine by \<open>setDiagramModel\<close>.
  \<open>logEntries\<close> are the entries notified on \<open>onLogRequiredObservable\<close>,
  \<open>selectionChanged\<close> counts the notifications of \<open>null\<close> on
  \<open>onSelectionChangedObservable\<close>, \<open>flushTimers\<close> the callbacks that \<open>build\<close> has
  handed to \<open>setTimeout\<close> and that have not run, and \<open>listened\<close> the links that were
  given a listener.
\<close>

record GraphEditor =
  nodeMaterial :: "NodeMaterial option"
  nodes :: "node_ref list"
  toAdd :: "LinkModel list option"
  rowPos :: "int \<rightharpoonup> int"
  model :: DiagramModel
  modelId :: nat
  engineModel :: "nat option"
  nodeHeap :: "node_ref \<Rightarrow> DefaultNodeModel"
  portHeap :: "port_ref \<Rightarrow> DefaultPortModel"
  pointHeap :: "cp_ref \<Rightarrow> NodeMaterialConnectionPoint"
  nextNode :: nat
  nextPort :: nat
  logEntries :: "LogEntry list"
  selectionChanged :: nat
  calls :: "semantic_call list"
  flushTimers :: nat
  listened :: "LinkModel list"

text \<open>
  A JavaScript call returns or throws; the state reached is kept in both cases, since
  an exception undoes nothing.
\<close>

datatype exn = TypeError

datatype ('a, 's) outcome = Returned 'a 's | Thrown exn 's

fun state_of :: "('a, 's) outcome \<Rightarrow> 's" where
  "state_of (Returned v s) = s"
| "state_of (Thrown e s) = s"

text \<open>
  Collaborators whose code is not in src and whose effect the spec leaves open are
  parameters: \<open>prepare\<close> (the node's own discovery of its inputs, which may call back
  into the editor), \<open>connectTo\<close> and \<open>disconnectFrom\<close> (their effect on the connection
  points) and the material's \<open>build\<close>, which returns the error it throws, if any, and the
  material as it leaves it.
\<close>

record collaborators =
  prepare ::
    "NodeCreationOptions \<Rightarrow> node_ref \<Rightarrow> string list \<Rightarrow> GraphEditor
       \<Rightarrow> (unit, GraphEditor) outcome"
  connectTo ::
    "cp_ref \<Rightarrow> cp_ref \<Rightarrow> (cp_ref \<Rightarrow> NodeMaterialConnectionPoint)
       \<Rightarrow> (cp_ref \<Rightarrow> NodeMaterialConnectionPoint)"
  disconnectFrom ::
    "cp_ref \<Rightarrow> cp_ref \<Rightarrow> (cp_ref \<Rightarrow> NodeMaterialConnectionPoint)
       \<Rightarrow> (cp_ref \<Rightarrow> NodeMaterialConnectionPoint)"
  materialBuild :: "NodeMaterial \<Rightarrow> string option \<times> NodeMaterial"

section \<open>Graph editor: collaborators described by the spec\<close>

text \<open>
  Modelled from the spec: \<open>NodeMaterial.addOutputNode\<close> and \<open>removeOutputNode\<close> are not
  in src. The spec (4.5) makes them idempotent: registering a registered block and
  unregistering an absent one do nothing. The registered blocks are those of the two
  root arrays; a block that is in neither is appended to the fragment roots.
\<close>

definition outputRoots :: "NodeMaterial \<Rightarrow> NodeMaterialBlock list" where
  "outputRoots m = vertexOutputNodes m @ fragmentOutputNodes m"

definition addOutputNode :: "NodeMaterialBlock \<Rightarrow> NodeMaterial \<Rightarrow> NodeMaterial" where
  "addOutputNode b m =
     (if b \<in> set (outputRoots m) then m
      else m\<lparr>fragmentOutputNodes := fragmentOutputNodes m @ [b]\<rparr>)"

definition removeOutputNode :: "NodeMaterialBlock \<Rightarrow> NodeMaterial \<Rightarrow> NodeMaterial" where
  "removeOutputNode b m =
     m\<lparr>vertexOutputNodes := removeAll b (vertexOutputNodes m),
       fragmentOutputNodes := removeAll b (fragmentOutputNodes m)\<rparr>"

text \<open>
  Modelled from the spec: \<open>DefaultPortModel.SortInputOutput\<close> is not in src. The spec
  (4.2): if one of the two ports has direction input and the other output, the pair is
  returned labelled; otherwise (both input, both output, or a malformed port: a missing
  one or one with another direction) the result is Invalid, \<open>None\<close> here.
\<close>

record sorted_link =
  link_input :: port_ref
  link_output :: port_ref

definition SortInputOutput ::
  "(port_ref \<Rightarrow> DefaultPortModel) \<Rightarrow> port_ref option \<Rightarrow> port_ref option
     \<Rightarrow> sorted_link option" where
  "SortInputOutput ph a b =
     (case a of
        None \<Rightarrow> None
      | Some pa \<Rightarrow>
          (case b of
             None \<Rightarrow> None
           | Some pb \<Rightarrow>
               if position (ph pa) = ''output'' \<and> position (ph pb) = ''input''
                 then Some \<lparr>link_input = pb, link_output = pa\<rparr>
               else if position (ph pb) = ''output'' \<and> position (ph pa) = ''input''
                 then Some \<lparr>link_input = pa, link_output = pb\<rparr>
               else None))"

text \<open>
  Modelled from the spec: \<open>DefaultPortModel.syncWithNodeMaterialConnectionPoint\<close> is not
  in src. The spec (4.3, scenario of section 8): the port then references the
  connection point and shows the caption of the connection point.
\<close>

definition syncWithNodeMaterialConnectionPoint ::
  "port_ref \<Rightarrow> cp_ref \<Rightarrow> GraphEditor \<Rightarrow> GraphEditor" where
  "syncWithNodeMaterialConnectionPoint p c s =
     s\<lparr>portHeap := (portHeap s)
          (p := (portHeap s p)\<lparr>connection := Some c, port_name := cp_name (pointHeap s c)\<rparr>)\<rparr>"

section \<open>Graph editor: operations\<close>

subsection \<open>createNodeFromObject\<close>

text \<open>
  \<open>constructNode\<close> is the body of \<open>createNodeFromObject\<close> up to and including
  \<open>this._model.addAll(newNode)\<close>: the row counter of the column, the choice of the node
  class with its list \<open>filterInputs\<close>, the registration of a final merger (where
  \<open>nodeMaterial!\<close> throws a TypeError on a missing material), and the placement of the
  node. \<open>newNodeModel\<close> is the \<open>new\<close> of a node class: a fresh reference whose object
  has no block, no connection and no port. \<open>placeNode\<close> reads the row of the column
  back from \<open>_rowPos\<close>, where \<open>constructNode\<close> has just stored it. Columns, rows and
  coordinates are JavaScript numbers holding small integers and are modelled as
  integers.
\<close>

definition newNodeModel :: "node_variant \<Rightarrow> GraphEditor \<Rightarrow> node_ref \<times> GraphEditor" where
  "newNodeModel v s =
     (nextNode s,
      s\<lparr>nodeHeap := (nodeHeap s)
           (nextNode s := \<lparr>variant = v, node_x = 0, node_y = 0, block = None,
                            node_connection = None, node_ports = []\<rparr>),
        nextNode := nextNode s + 1\<rparr>)"

definition placeNode :: "NodeCreationOptions \<Rightarrow> node_ref \<Rightarrow> GraphEditor \<Rightarrow> GraphEditor" where
  "placeNode options newNode s =
     (let s1 = s\<lparr>nodes := nodes s @ [newNode]\<rparr>;
          s2 = s1\<lparr>nodeHeap := (nodeHeap s1)
                  (newNode := (nodeHeap s1 newNode)
                     \<lparr>node_x := 1600 - 300 * column options,
                      node_y := 210 * (case rowPos s1 (column options) of
                                         None \<Rightarrow> 0 | Some r \<Rightarrow> r)\<rparr>)\<rparr>
      in s2\<lparr>model := (model s2)\<lparr>model_nodes := model_nodes (model s2) @ [newNode]\<rparr>\<rparr>)"

definition constructNode ::
  "NodeCreationOptions \<Rightarrow> GraphEditor \<Rightarrow> (node_ref \<times> string list, GraphEditor) outcome" where
  "constructNode options s =
     (let s1 = s\<lparr>rowPos := (rowPos s)
                  (column options \<mapsto>
                     (case rowPos s (column options) of None \<Rightarrow> 0 | Some r \<Rightarrow> r + 1))\<rparr>
      in case nodeMaterialBlock options of
           Some b \<Rightarrow>
             (let (newNode, s2) =
                    newNodeModel
                      (if blockClass b = TextureBlock then TextureNodeModel
                       else if blockClass b = LightBlock then LightNodeModel
                       else GenericNodeModel) s1;
                  filterInputs =
                    (if blockClass b = TextureBlock then [''uv'']
                     else if blockClass b = LightBlock
                       then [''worldPosition'', ''worldNormal'', ''cameraPosition'']
                     else [])
              in if isFinalMerger b
                 then (case nodeMaterial s2 of
                         None \<Rightarrow> Thrown TypeError s2
                       | Some m \<Rightarrow>
                           Returned (newNode, filterInputs)
                             (placeNode options newNode
                                (s2\<lparr>nodeMaterial := Some (addOutputNode b m),
                                    calls := calls s2 @ [AddOutputNode b]\<rparr>)))
                 else Returned (newNode, filterInputs) (placeNode options newNode s2))
         | None \<Rightarrow>
             (let (newNode, s2) = newNodeModel InputNodeModel s1;
                  s3 = s2\<lparr>nodeHeap := (nodeHeap s2)
                          (newNode := (nodeHeap s2 newNode)
                             \<lparr>node_connection := opt_connection options\<rparr>)\<rparr>
              in Returned (newNode, []) (placeNode options newNode s3)))"

text \<open>
  The end of \<open>createNodeFromObject\<close>: \<open>prepare\<close> is called when the options carry a
  block, and the node is returned.
\<close>

definition runPrepare ::
  "collaborators \<Rightarrow> NodeCreationOptions \<Rightarrow> node_ref \<Rightarrow> string list \<Rightarrow> GraphEditor
     \<Rightarrow> (node_ref, GraphEditor) outcome" where
  "runPrepare ext options newNode filterInputs s =
     (case nodeMaterialBlock options of
        None \<Rightarrow> Returned newNode s
      | Some b \<Rightarrow>
          (case prepare ext options newNode filterInputs s of
             Thrown e s' \<Rightarrow> Thrown e s'
           | Returned u s' \<Rightarrow> Returned newNode s'))"

definition createNodeFromObject ::
  "collaborators \<Rightarrow> NodeCreationOptions \<Rightarrow> GraphEditor \<Rightarrow> (node_ref, GraphEditor) outcome" where
  "createNodeFromObject ext options s =
     (case constructNode options s of
        Thrown e s' \<Rightarrow> Thrown e s'
      | Returned (newNode, filterInputs) s' \<Rightarrow> runPrepare ext options newNode filterInputs s')"

subsection \<open>buildMaterial\<close>

definition buildMaterial :: "collaborators \<Rightarrow> GraphEditor \<Rightarrow> (unit, GraphEditor) outcome" where
  "buildMaterial ext s =
     (case nodeMaterial s of
        None \<Rightarrow> Returned () s
      | Some m \<Rightarrow>
          (let s1 = s\<lparr>calls := calls s @ [Build]\<rparr> in
           case materialBuild ext m of
             (None, m') \<Rightarrow>
               Returned ()
                 (s1\<lparr>nodeMaterial := Some m',
                     logEntries := logEntries s1 @
                       [\<lparr>message = ''Node material build successful'', isError = False\<rparr>]\<rparr>)
           | (Some err, m') \<Rightarrow>
               Returned ()
                 (s1\<lparr>nodeMaterial := Some m',
                     logEntries := logEntries s1 @ [\<lparr>message = err, isError = True\<rparr>]\<rparr>)))"

subsection \<open>The listeners installed by build\<close>

definition nodesUpdated :: "bool \<Rightarrow> node_ref \<Rightarrow> GraphEditor \<Rightarrow> (unit, GraphEditor) outcome" where
  "nodesUpdated isCreated n s =
     (if \<not> isCreated then
        (case block (nodeHeap s n) of
           None \<Rightarrow> Returned () s
         | Some targetBlock \<Rightarrow>
             if isFinalMerger targetBlock
             then (case nodeMaterial s of
                     None \<Rightarrow> Thrown TypeError s
                   | Some m \<Rightarrow>
                       Returned ()
                         (s\<lparr>nodeMaterial := Some (removeOutputNode targetBlock m),
                            calls := calls s @ [RemoveOutputNode targetBlock]\<rparr>))
             else Returned () s)
      else Returned () s)"

text \<open>
  The deletion branch of \<open>linksUpdated\<close>. The two ports of a sorted link are different
  objects and \<open>disconnectFrom\<close> acts on connection points, so the connections of the two
  ports are read once. The held value of the input's connection point is cleared when it
  is truthy.
\<close>

definition linkDeleted :: "collaborators \<Rightarrow> LinkModel \<Rightarrow> GraphEditor \<Rightarrow> GraphEditor" where
  "linkDeleted ext lnk s =
     (let s0 = s\<lparr>selectionChanged := selectionChanged s + 1\<rparr> in
      case SortInputOutput (portHeap s0) (sourcePort lnk) (targetPort lnk) of
        None \<Rightarrow> s0
      | Some l \<Rightarrow>
          (case connection (portHeap s0 (link_input l)) of
             None \<Rightarrow> s0
           | Some inC \<Rightarrow>
               (case connection (portHeap s0 (link_output l)) of
                  Some outC \<Rightarrow>
                    (let s1 = s0\<lparr>pointHeap := disconnectFrom ext outC inC (pointHeap s0),
                                 calls := calls s0 @ [DisconnectFrom outC inC]\<rparr>;
                         s2 = syncWithNodeMaterialConnectionPoint (link_input l) inC s1
                     in syncWithNodeMaterialConnectionPoint (link_output l) outC s2)
                | None \<Rightarrow>
                    if truthyValue (cp_value (pointHeap s0 inC))
                    then s0\<lparr>pointHeap := (pointHeap s0)
                             (inC := (pointHeap s0 inC)\<lparr>cp_value := None\<rparr>)\<rparr>
                    else s0)))"

definition linksUpdated ::
  "collaborators \<Rightarrow> bool \<Rightarrow> LinkModel \<Rightarrow> GraphEditor \<Rightarrow> (unit, GraphEditor) outcome" where
  "linksUpdated ext isCreated lnk s =
     (let s1 = (if \<not> isCreated then linkDeleted ext lnk s else s)
      in Returned () (s1\<lparr>listened := listened s1 @ [lnk]\<rparr>))"

text \<open>
  The branch of \<open>targetPortChanged\<close> for an output port without connection (the port of
  an Input node): the port takes the connection point of the input port and keeps its
  name, the node of the port records the connection, and the connection point receives
  the default value of the port. \<open>getNode()\<close> is the parent of the port; assigning a
  property of a missing parent throws a TypeError.
\<close>

definition adoptConnection ::
  "sorted_link \<Rightarrow> cp_ref \<Rightarrow> GraphEditor \<Rightarrow> (unit, GraphEditor) outcome" where
  "adoptConnection l inC s =
     (let out = link_output l;
          name = port_name (portHeap s out);
          s1 = syncWithNodeMaterialConnectionPoint out inC s;
          s2 = s1\<lparr>portHeap := (portHeap s1)(out := (portHeap s1 out)\<lparr>port_name := name\<rparr>)\<rparr>
      in case parent (portHeap s2 out) of
           None \<Rightarrow> Thrown TypeError s2
         | Some n \<Rightarrow>
             (let s3 = s2\<lparr>nodeHeap := (nodeHeap s2)
                          (n := (nodeHeap s2 n)
                             \<lparr>node_connection := connection (portHeap s2 out)\<rparr>)\<rparr>
              in Returned ()
                   (s3\<lparr>pointHeap := (pointHeap s3)
                        (inC := (pointHeap s3 inC)
                           \<lparr>cp_value := defaultValue (portHeap s3 out)\<rparr>)\<rparr>)))"

definition targetPortChanged ::
  "collaborators \<Rightarrow> LinkModel \<Rightarrow> GraphEditor \<Rightarrow> (unit, GraphEditor) outcome" where
  "targetPortChanged ext lnk s =
     (case SortInputOutput (portHeap s) (sourcePort lnk) (targetPort lnk) of
        None \<Rightarrow> Returned () s
      | Some l \<Rightarrow>
          (case (case connection (portHeap s (link_input l)) of
                   None \<Rightarrow> Returned () s
                 | Some inC \<Rightarrow>
                     (case connection (portHeap s (link_output l)) of
                        Some outC \<Rightarrow>
                          Returned ()
                            (s\<lparr>pointHeap := connectTo ext outC inC (pointHeap s),
                               calls := calls s @ [ConnectTo outC inC]\<rparr>)
                      | None \<Rightarrow> adoptConnection l inC s)) of
             Thrown e s' \<Rightarrow> Thrown e s'
           | Returned u s' \<Rightarrow>
               if nodeMaterial s' \<noteq> None then buildMaterial ext s' else Returned () s'))"

subsection \<open>build and its deferred callback\<close>

fun createRoots ::
  "collaborators \<Rightarrow> NodeMaterialBlock list \<Rightarrow> GraphEditor \<Rightarrow> (unit, GraphEditor) outcome" where
  "createRoots ext [] s = Returned () s"
| "createRoots ext (n # ns) s =
     (case createNodeFromObject ext
             \<lparr>column = 0, nodeMaterialBlock = Some n, type_name = None, opt_connection = None\<rparr> s of
        Thrown e s' \<Rightarrow> Thrown e s'
      | Returned newNode s' \<Rightarrow> createRoots ext ns s')"

text \<open>
  \<open>build\<close> takes a new diagram model, creates the nodes of the vertex roots and then of
  the fragment roots (\<open>forEach\<close> visits the elements present when it starts; the
  fragment roots are read when the first loop is over), and hands its callback to
  \<open>setTimeout\<close>. \<open>flush\<close> is that callback.
\<close>

definition build :: "collaborators \<Rightarrow> GraphEditor \<Rightarrow> (unit, GraphEditor) outcome" where
  "build ext s =
     (let s1 = s\<lparr>model := \<lparr>model_nodes = [], model_links = []\<rparr>, modelId := modelId s + 1\<rparr>
      in case nodeMaterial s1 of
           None \<Rightarrow> Returned () (s1\<lparr>flushTimers := flushTimers s1 + 1\<rparr>)
         | Some material \<Rightarrow>
             (case createRoots ext (vertexOutputNodes material) s1 of
                Thrown e s' \<Rightarrow> Thrown e s'
              | Returned u s2 \<Rightarrow>
                  (case createRoots ext
                          (fragmentOutputNodes
                             (case nodeMaterial s2 of None \<Rightarrow> material | Some m2 \<Rightarrow> m2)) s2 of
                     Thrown e s' \<Rightarrow> Thrown e s'
                   | Returned u s3 \<Rightarrow> Returned () (s3\<lparr>flushTimers := flushTimers s3 + 1\<rparr>))))"

definition flush :: "GraphEditor \<Rightarrow> GraphEditor" where
  "flush s =
     (let s1 = (case toAdd s of
                  Some links \<Rightarrow>
                    s\<lparr>model := (model s)\<lparr>model_links := model_links (model s) @ links\<rparr>\<rparr>
                | None \<Rightarrow> s)
      in s1\<lparr>toAdd := None, engineModel := Some (modelId s1),
            flushTimers := flushTimers s1 - 1\<rparr>)"



subsection \<open>addValueNode\<close>

text \<open>
  The \<open>switch\<close> on the type name; it has no default case, so any other name leaves the
  default value of the port as it is.
\<close>

definition literalDefault :: "string \<Rightarrow> literal option" where
  "literalDefault ty =
     (if ty = ''Vector2'' then Some Vector2_Zero
      else if ty = ''Vector3'' then Some Vector3_Zero
      else if ty = ''Vector4'' then Some Vector4_Zero
      else if ty = ''Matrix'' then Some Matrix_Identity
      else if ty = ''Color3'' then Some Color3_White
      else if ty = ''Color4'' then Some (Color4 1 1 1 1)
      else None)"

text \<open>
  Modelled from the spec: the constructor of \<open>DefaultPortModel\<close> and \<open>addPort\<close> are not
  in src. A port has a name and a direction (spec, section 3), here the two arguments
  of the constructor; a new port has no connection, no default value and no node;
  \<open>addPort\<close> makes the node the owner of the port.
\<close>

definition newPortModel :: "string \<Rightarrow> string \<Rightarrow> GraphEditor \<Rightarrow> port_ref \<times> GraphEditor" where
  "newPortModel nm pos s =
     (nextPort s,
      s\<lparr>portHeap := (portHeap s)
           (nextPort s := \<lparr>port_name = nm, position = pos, connection = None,
                            defaultValue = None, parent = None\<rparr>),
        nextPort := nextPort s + 1\<rparr>)"

definition addPort :: "node_ref \<Rightarrow> port_ref \<Rightarrow> GraphEditor \<Rightarrow> GraphEditor" where
  "addPort n p s =
     s\<lparr>nodeHeap := (nodeHeap s)
          (n := (nodeHeap s n)\<lparr>node_ports := node_ports (nodeHeap s n) @ [p]\<rparr>),
       portHeap := (portHeap s)(p := (portHeap s p)\<lparr>parent := Some n\<rparr>)\<rparr>"

definition addValueNode ::
  "collaborators \<Rightarrow> string \<Rightarrow> int \<Rightarrow> cp_ref option \<Rightarrow> GraphEditor
     \<Rightarrow> (node_ref, GraphEditor) outcome" where
  "addValueNode ext ty col conn s =
     (case createNodeFromObject ext
             \<lparr>column = col, nodeMaterialBlock = None, type_name = Some ty, opt_connection = conn\<rparr>
             s of
        Thrown e s' \<Rightarrow> Thrown e s'
      | Returned localNode s1 \<Rightarrow>
          (let (outPort, s2) = newPortModel ty ''output'' s1;
               s3 = addPort localNode outPort s2
           in Returned localNode
                (if conn = None
                 then (case literalDefault ty of
                         None \<Rightarrow> s3
                       | Some v \<Rightarrow>
                           s3\<lparr>portHeap := (portHeap s3)
                                (outPort := (portHeap s3 outPort)\<lparr>defaultValue := Some v\<rparr>)\<rparr>)
                 else s3)))"

subsection \<open>The observers of the constructor and the life of the editor\<close>

text \<open>
  The observers that the constructor adds to \<open>onRebuildRequiredObservable\<close> and
  \<open>onResetRequiredObservable\<close> (the re-rendering of the component is not modelled).
\<close>

definition rebuildRequired :: "collaborators \<Rightarrow> GraphEditor \<Rightarrow> (unit, GraphEditor) outcome" where
  "rebuildRequired ext s =
     (if nodeMaterial s \<noteq> None then buildMaterial ext s else Returned () s)"

definition resetRequired :: "collaborators \<Rightarrow> GraphEditor \<Rightarrow> (unit, GraphEditor) outcome" where
  "resetRequired ext s =
     (case build ext (s\<lparr>rowPos := Map.empty\<rparr>) of
        Thrown e s' \<Rightarrow> Thrown e s'
      | Returned u s' \<Rightarrow>
          if nodeMaterial s' \<noteq> None then buildMaterial ext s' else Returned () s')"

text \<open>
  What happens to the editor, one event after the other: a node is created from options
  (as \<open>addNodeFromClass\<close> does for a new block), a literal node is added, the diagram
  notifies a node or a link event, the target port of a link changes, a rebuild or a
  reset is required, a scheduled callback of \<open>build\<close> runs. An event that throws leaves
  the state it has reached, and the next event starts from there.
\<close>

datatype editor_event =
  EvCreateNode NodeCreationOptions
  | EvAddValueNode string int "cp_ref option"
  | EvNodesUpdated bool node_ref
  | EvLinksUpdated bool LinkModel
  | EvTargetPortChanged LinkModel
  | EvRebuildRequired
  | EvResetRequired
  | EvFlush

fun step :: "collaborators \<Rightarrow> editor_event \<Rightarrow> GraphEditor \<Rightarrow> GraphEditor" where
  "step ext (EvCreateNode options) s = state_of (createNodeFromObject ext options s)"
| "step ext (EvAddValueNode ty col conn) s = state_of (addValueNode ext ty col conn s)"
| "step ext (EvNodesUpdated isCreated n) s = state_of (nodesUpdated isCreated n s)"
| "step ext (EvLinksUpdated isCreated lnk) s = state_of (linksUpdated ext isCreated lnk s)"
| "step ext (EvTargetPortChanged lnk) s = state_of (targetPortChanged ext lnk s)"
| "step ext EvRebuildRequired s = state_of (rebuildRequired ext s)"
| "step ext EvResetRequired s = state_of (resetRequired ext s)"
| "step ext EvFlush s = (if 0 < flushTimers s then flush s else s)"

fun runEvents :: "collaborators \<Rightarrow> editor_event list \<Rightarrow> GraphEditor \<Rightarrow> GraphEditor" where
  "runEvents ext [] s = s"
| "runEvents ext (ev # evs) s = runEvents ext evs (step ext ev s)"

text \<open>
  A block is registered exactly once when the editor has a material and the block
  occurs once in its output roots. \<open>deletesWrapper\<close> tells whether an event is the
  deletion of a node that wraps the block, \<open>noWrapperDeleted\<close> whether no event of a
  run is one.
\<close>

definition registeredOnce :: "NodeMaterialBlock \<Rightarrow> GraphEditor \<Rightarrow> bool" where
  "registeredOnce b s =
     (case nodeMaterial s of None \<Rightarrow> False | Some m \<Rightarrow> count_list (outputRoots m) b = 1)"

fun deletesWrapper :: "NodeMaterialBlock \<Rightarrow> editor_event \<Rightarrow> GraphEditor \<Rightarrow> bool" where
  "deletesWrapper b (EvNodesUpdated isCreated n) s =
     (\<not> isCreated \<and> block (nodeHeap s n) = Some b)"
| "deletesWrapper b ev s = False"

fun noWrapperDeleted ::
  "collaborators \<Rightarrow> NodeMaterialBlock \<Rightarrow> editor_event list \<Rightarrow> GraphEditor \<Rightarrow> bool" where
  "noWrapperDeleted ext b [] s = True"
| "noWrapperDeleted ext b (ev # evs) s =
     (\<not> deletesWrapper b ev s \<and> noWrapperDeleted ext b evs (step ext ev s))"

section \<open>Concrete inputs\<close>

text \<open>
  A hub with two keyboard triggers and two mouse triggers that share a name, and the
  hardware events that match them.
\<close>

definition spaceTrigger :: "bool option \<Rightarrow> IInputHubKeyboardEventTrigger" where
  "spaceTrigger shift =
     \<lparr>device = Keyboard, altModifier = None, shiftModifier = shift, ctrlModifier = None,
      released = None, rightModifier = None, keyCode = 32\<rparr>"

definition leftButtonTrigger :: IInputHubMouseEventTrigger where
  "leftButtonTrigger =
     \<lparr>device = Mouse, altModifier = None, shiftModifier = None, ctrlModifier = None,
      released = None, rightModifier = None, button = 0\<rparr>"

definition hub0 :: InputHub where
  "hub0 =
     \<lparr>keyboardHubEvents =
        [\<lparr>kb_name = ''jump'', kb_trigger = spaceTrigger None\<rparr>,
         \<lparr>kb_name = ''jump'', kb_trigger = spaceTrigger (Some False)\<rparr>,
         \<lparr>kb_name = ''fly'', kb_trigger = spaceTrigger (Some True)\<rparr>],
      mouseHubEvents =
        [\<lparr>ms_name = ''fire'', ms_trigger = leftButtonTrigger\<rparr>,
         \<lparr>ms_name = ''fire'', ms_trigger = leftButtonTrigger\<rparr>],
      modifierStates = Map.empty\<rparr>"

definition spaceDown :: KeyboardInfo where
  "spaceDown =
     \<lparr>kb_type = KEYDOWN,
      kb_event = \<lparr>ev_keyCode = 32, ev_location = 0, altKey = False, shiftKey = False,
                   ctrlKey = False\<rparr>\<rparr>"

definition leftDown :: PointerInfo where
  "leftDown = \<lparr>ptr_type = POINTERDOWN, ptr_button = 0\<rparr>"

text \<open>
  Collaborators that do nothing: a block without inputs, connections without effect on
  the connection points, a material whose build succeeds. \<open>extFailing\<close> differs by a
  build that throws.
\<close>

definition ext0 :: collaborators where
  "ext0 =
     \<lparr>prepare = (\<lambda>options n filterInputs s. Returned () s),
      connectTo = (\<lambda>a b h. h),
      disconnectFrom = (\<lambda>a b h. h),
      materialBuild = (\<lambda>m. (None, m))\<rparr>"

definition extFailing :: collaborators where
  "extFailing = ext0\<lparr>materialBuild := (\<lambda>m. (Some ''no output'', m))\<rparr>"

text \<open>The editor as its field initialisers leave it, without a material.\<close>

definition editor0 :: GraphEditor where
  "editor0 =
     \<lparr>nodeMaterial = None, nodes = [], toAdd = Some [], rowPos = Map.empty,
      model = \<lparr>model_nodes = [], model_links = []\<rparr>, modelId = 0, engineModel = None,
      nodeHeap = (\<lambda>r. \<lparr>variant = GenericNodeModel, node_x = 0, node_y = 0, block = None,
                         node_connection = None, node_ports = []\<rparr>),
      portHeap = (\<lambda>r. \<lparr>port_name = [], position = ''input'', connection = None,
                         defaultValue = None, parent = None\<rparr>),
      pointHeap = (\<lambda>r. \<lparr>cp_name = ''color'', cp_value = None\<rparr>),
      nextNode = 0, nextPort = 0, logEntries = [], selectionChanged = 0, calls = [],
      flushTimers = 0, listened = []\<rparr>"

definition block0 :: NodeMaterialBlock where
  "block0 = \<lparr>uniqueId = 0, blockClass = OtherBlock, isFinalMerger = True\<rparr>"

definition material0 :: NodeMaterial where
  "material0 = \<lparr>vertexOutputNodes = [], fragmentOutputNodes = [block0]\<rparr>"

definition options0 :: NodeCreationOptions where
  "options0 =
     \<lparr>column = 0, nodeMaterialBlock = Some block0, type_name = None, opt_connection = None\<rparr>"

text \<open>An editor on a material with one fragment root, nothing built yet.\<close>

definition editor1 :: GraphEditor where
  "editor1 = editor0\<lparr>nodeMaterial := Some material0\<rparr>"

text \<open>
  The same with node 0 wrapping the root, an input port 0 of that node bound to
  connection point 5, and an output port 2 bound to connection point 6.
\<close>

definition editor2 :: GraphEditor where
  "editor2 =
     editor1
       \<lparr>nodeHeap := (nodeHeap editor1)
          (0 := \<lparr>variant = GenericNodeModel, node_x = 1600, node_y = 0, block = Some block0,
                 node_connection = None, node_ports = [0]\<rparr>),
        portHeap := (portHeap editor1)
          (0 := \<lparr>port_name = ''color'', position = ''input'', connection = Some 5,
                 defaultValue = None, parent = Some 0\<rparr>,
           2 := \<lparr>port_name = ''output'', position = ''output'', connection = Some 6,
                 defaultValue = None, parent = Some 3\<rparr>),
        nextNode := 4, nextPort := 3\<rparr>"

text \<open>
  A literal Vector3 node added to it (node 4 with its output port 3), the link from
  that port to the input port 0, the link between the two bound ports, and a link
  between two input ports.
\<close>

definition editor3 :: GraphEditor where
  "editor3 = state_of (addValueNode ext0 ''Vector3'' 1 None editor2)"

definition literalLink :: LinkModel where
  "literalLink = \<lparr>sourcePort = Some 3, targetPort = Some 0\<rparr>"


definition inputsLink :: LinkModel where
  "inputsLink = \<lparr>sourcePort = Some 0, targetPort = Some 1\<rparr>"



text \<open>
  Collaborators whose \<open>prepare\<close> makes the node wrap its block. For \<open>extLeaf\<close> the
  blocks have no input. For \<open>extChain\<close> the block \<open>blockA\<close> has one input, fed by
  \<open>block0\<close>: as the spec describes the recursion, \<open>prepare\<close> creates the node of the
  predecessor in the next column unless one of the nodes seen so far wraps it.
\<close>

definition wrapBlock :: "NodeCreationOptions \<Rightarrow> node_ref \<Rightarrow> GraphEditor \<Rightarrow> GraphEditor" where
  "wrapBlock options n s =
     s\<lparr>nodeHeap := (nodeHeap s)(n := (nodeHeap s n)\<lparr>block := nodeMaterialBlock options\<rparr>)\<rparr>"

definition extLeaf :: collaborators where
  "extLeaf = ext0\<lparr>prepare := (\<lambda>options n filterInputs s. Returned () (wrapBlock options n s))\<rparr>"

definition blockA :: NodeMaterialBlock where
  "blockA = \<lparr>uniqueId = 1, blockClass = OtherBlock, isFinalMerger = True\<rparr>"

definition extChain :: collaborators where
  "extChain =
     ext0\<lparr>prepare := (\<lambda>options n filterInputs s.
        let s1 = wrapBlock options n s in
        if nodeMaterialBlock options = Some blockA
           \<and> \<not> list_ex (\<lambda>k. block (nodeHeap s1 k) = Some block0) (nodes s1)
        then (case createNodeFromObject extLeaf
                     \<lparr>column = column options + 1, nodeMaterialBlock = Some block0,
                      type_name = None, opt_connection = None\<rparr> s1 of
                Thrown e s' \<Rightarrow> Thrown e s'
              | Returned k s' \<Rightarrow> Returned () s')
        else Returned () s1)\<rparr>"

text \<open>An editor on a material with the vertex root \<open>blockA\<close> and the fragment root \<open>block0\<close>.\<close>

definition editorChain :: GraphEditor where
  "editorChain =
     editor0\<lparr>nodeMaterial :=
       Some \<lparr>vertexOutputNodes = [blockA], fragmentOutputNodes = [block0]\<rparr>\<rparr>"

section \<open>Properties of the InputHub\<close>

lemma pointerLoop_distinct:
  "distinct notified \<Longrightarrow> set notified \<subseteq> set raisedEvents
     \<Longrightarrow> distinct (pointerLoop ms evt evs raisedEvents notified)"
proof (induction evs arbitrary: raisedEvents notified)
  case Nil
  then show ?case by simp
next
  case (Cons e evs)
  show ?case
    using Cons.prems by (auto simp: Let_def intro!: Cons.IH)
qed

lemma keyboardLoop_distinct:
  "distinct notified \<Longrightarrow> set notified \<subseteq> set raisedEvents
     \<Longrightarrow> distinct (keyboardLoop ms evt evs raisedEvents notified)"
proof (induction evs arbitrary: raisedEvents notified)
  case Nil
  then show ?case by simp
next
  case (Cons e evs)
  show ?case
    using Cons.prems by (auto simp: Let_def intro!: Cons.IH)
qed

lemma keyboardLoop1_distinct:
  "distinct notified \<Longrightarrow> set notified \<subseteq> set raisedEvents
     \<Longrightarrow> distinct (keyboardLoop1 ms evt evs raisedEvents notified)"
proof (induction evs arbitrary: raisedEvents notified)
  case Nil
  then show ?case by simp
next
  case (Cons e evs)
  show ?case
    using Cons.prems by (auto simp: Let_def intro!: Cons.IH)
qed

lemma distinct_count_le_1: "distinct xs \<Longrightarrow> count_list xs x \<le> 1"
  by (induction xs) auto

text \<open>
  C10. For one pointer or keyboard hardware event handled by the hub of part 000, and
  for one keyboard event handled by the hub of part 001, every event name is passed to
  \<open>onEventObservable.notifyObservers\<close> at most once, whatever the registered triggers
  are (several matching triggers may carry the same name).
\<close>

theorem raised_once_per_hardware_event:
  "count_list (pointerObserver hub pevt) name \<le> 1
   \<and> count_list (snd (keyboardObserver hub kevt)) name \<le> 1
   \<and> count_list (snd (keyboardObserver1 hub kevt)) name \<le> 1"
proof -
  have p: "distinct (pointerObserver hub pevt)"
    unfolding pointerObserver_def by (rule pointerLoop_distinct) simp_all
  have k: "distinct (snd (keyboardObserver hub kevt))"
    unfolding keyboardObserver_def Let_def
    by (simp add: keyboardLoop_distinct)
  have k1: "distinct (snd (keyboardObserver1 hub kevt))"
    unfolding keyboardObserver1_def Let_def
    by (simp add: keyboardLoop1_distinct)
  from p k k1 show ?thesis
    by (intro conjI distinct_count_le_1)
qed

text \<open>
  On \<open>hub0\<close> two triggers named jump match the space key and two triggers named fire
  match the left button; each name is notified once.
\<close>

theorem raised_once_per_hardware_event_witness:
  "pointerObserver hub0 leftDown = [''fire'']
   \<and> snd (keyboardObserver hub0 spaceDown) = [''jump'']
   \<and> snd (keyboardObserver1 hub0 spaceDown) = [''jump'']
   \<and> count_list (pointerObserver hub0 leftDown) ''fire'' \<le> 1
   \<and> count_list (snd (keyboardObserver hub0 spaceDown)) ''jump'' \<le> 1
   \<and> count_list (snd (keyboardObserver1 hub0 spaceDown)) ''jump'' \<le> 1"
  using raised_once_per_hardware_event [of hub0 leftDown "''fire''" spaceDown]
    raised_once_per_hardware_event [of hub0 leftDown "''jump''" spaceDown]
  by (simp add: pointerObserver_def keyboardObserver_def keyboardObserver1_def hub0_def
      leftDown_def spaceDown_def spaceTrigger_def leftButtonTrigger_def truthy_def
      checkModifier_def checkKeyModifier_def checkKeyModifier1_def prefixKey_def Let_def)

section \<open>Properties of the graph editor\<close>

subsection \<open>Auxiliary facts\<close>


lemma buildMaterial_heaps:
  "\<exists>s'. buildMaterial ext s = Returned () s'
      \<and> portHeap s' = portHeap s \<and> nodeHeap s' = nodeHeap s \<and> pointHeap s' = pointHeap s"
  by (auto simp: buildMaterial_def Let_def split: option.splits prod.splits)

lemma adoptConnection_effect:
  assumes "connection (portHeap s (link_output l)) = None"
    and "parent (portHeap s (link_output l)) = Some n"
  shows "\<exists>s'. adoptConnection l X s = Returned () s'
      \<and> connection (portHeap s' (link_output l)) = Some X
      \<and> port_name (portHeap s' (link_output l)) = port_name (portHeap s (link_output l))
      \<and> node_connection (nodeHeap s' n) = Some X
      \<and> cp_value (pointHeap s' X) = defaultValue (portHeap s (link_output l))"
  using assms
  by (simp add: adoptConnection_def syncWithNodeMaterialConnectionPoint_def Let_def)

lemma count_list_removeAll:
  "count_list (removeAll b xs) c = (if c = b then 0 else count_list xs c)"
  by (induction xs) auto

lemma count_addOutputNode:
  "count_list (outputRoots (addOutputNode b m)) c =
     (if c = b \<and> b \<notin> set (outputRoots m) then 1 else count_list (outputRoots m) c)"
  by (auto simp: addOutputNode_def outputRoots_def)

lemma count_removeOutputNode:
  "count_list (outputRoots (removeOutputNode b m)) c =
     (if c = b then 0 else count_list (outputRoots m) c)"
  by (simp add: removeOutputNode_def outputRoots_def count_list_removeAll)

lemma constructNode_registrar:
  assumes "nodeMaterial s = Some m"
  shows "case constructNode options s of
           Thrown e s1 \<Rightarrow> False
         | Returned r s1 \<Rightarrow>
             nodeMaterial s1 =
               Some (case nodeMaterialBlock options of
                       None \<Rightarrow> m
                     | Some b \<Rightarrow> if isFinalMerger b then addOutputNode b m else m)
             \<and> calls s1 = calls s @
                 (case nodeMaterialBlock options of
                    None \<Rightarrow> []
                  | Some b \<Rightarrow> if isFinalMerger b then [AddOutputNode b] else [])"
  using assms
  by (auto simp: constructNode_def newNodeModel_def placeNode_def Let_def
        split: option.splits prod.splits)




lemma registeredOnce_material:
  "nodeMaterial t = nodeMaterial s \<Longrightarrow> registeredOnce b t = registeredOnce b s"
  by (simp add: registeredOnce_def)

lemma constructNode_registered:
  assumes "registeredOnce b s"
  shows "registeredOnce b (state_of (constructNode options s))"
proof -
  from assms obtain m where m: "nodeMaterial s = Some m" "count_list (outputRoots m) b = 1"
    by (auto simp: registeredOnce_def split: option.splits)
  have "b \<in> set (outputRoots m)"
    using m(2) count_list_0_iff [of "outputRoots m" b] by auto
  then show ?thesis
    using constructNode_registrar [OF m(1), of options] m(2)
    by (auto simp: registeredOnce_def count_addOutputNode split: outcome.splits option.splits)
qed

lemma createNodeFromObject_registered:
  assumes "\<And>options n fi t.
      registeredOnce b t \<Longrightarrow> registeredOnce b (state_of (prepare ext options n fi t))"
    and "registeredOnce b s"
  shows "registeredOnce b (state_of (createNodeFromObject ext options s))"
proof (cases "constructNode options s")
  case (Thrown e s1)
  then show ?thesis
    using constructNode_registered [OF assms(2), of options]
    by (simp add: createNodeFromObject_def)
next
  case (Returned r s1)
  obtain n fi where r: "r = (n, fi)" by (cases r)
  have c: "registeredOnce b s1"
    using constructNode_registered [OF assms(2), of options] Returned by simp
  show ?thesis
  proof (cases "nodeMaterialBlock options")
    case None
    then show ?thesis
      using Returned r c by (simp add: createNodeFromObject_def runPrepare_def)
  next
    case (Some b')
    have "state_of (createNodeFromObject ext options s)
        = state_of (prepare ext options n fi s1)"
      using Returned r Some
      by (simp add: createNodeFromObject_def runPrepare_def split: outcome.splits)
    then show ?thesis
      using assms(1) [OF c, of options n fi] by simp
  qed
qed

lemma createRoots_registered:
  assumes "\<And>options n fi t.
      registeredOnce b t \<Longrightarrow> registeredOnce b (state_of (prepare ext options n fi t))"
  shows "registeredOnce b s \<Longrightarrow> registeredOnce b (state_of (createRoots ext rs s))"
proof (induction rs arbitrary: s)
  case Nil
  then show ?case by simp
next
  case (Cons r rs)
  let ?o = "\<lparr>column = 0, nodeMaterialBlock = Some r, type_name = None,
      opt_connection = None\<rparr>"
  have c: "registeredOnce b (state_of (createNodeFromObject ext ?o s))"
    using createNodeFromObject_registered [OF assms Cons.prems] .
  show ?case
  proof (cases "createNodeFromObject ext ?o s")
    case (Thrown e s1)
    then show ?thesis using c by simp
  next
    case (Returned k s1)
    then show ?thesis using c Cons.IH [of s1] by simp
  qed
qed

lemma buildMaterial_registered:
  assumes "\<And>m. count_list (outputRoots (snd (materialBuild ext m))) b
      = count_list (outputRoots m) b"
    and "registeredOnce b s"
  shows "registeredOnce b (state_of (buildMaterial ext s))"
proof -
  from assms(2) obtain m where m: "nodeMaterial s = Some m" "count_list (outputRoots m) b = 1"
    by (auto simp: registeredOnce_def split: option.splits)
  obtain err m' where r: "materialBuild ext m = (err, m')"
    by (cases "materialBuild ext m")
  have "count_list (outputRoots m') b = 1"
    using assms(1) [of m] r m(2) by simp
  then show ?thesis
    using m(1) r
    by (cases err) (simp_all add: buildMaterial_def registeredOnce_def Let_def)
qed

lemma build_registered:
  assumes "\<And>options n fi t.
      registeredOnce b t \<Longrightarrow> registeredOnce b (state_of (prepare ext options n fi t))"
    and "registeredOnce b s"
  shows "registeredOnce b (state_of (build ext s))"
proof -
  let ?s1 = "s\<lparr>model := \<lparr>model_nodes = [], model_links = []\<rparr>, modelId := modelId s + 1\<rparr>"
  have r1: "registeredOnce b ?s1"
    using assms(2) by (simp add: registeredOnce_def)
  then obtain m where m: "nodeMaterial ?s1 = Some m"
    by (auto simp: registeredOnce_def split: option.splits)
  have v: "registeredOnce b (state_of (createRoots ext (vertexOutputNodes m) ?s1))"
    using createRoots_registered [OF assms(1) r1] .
  show ?thesis
  proof (cases "createRoots ext (vertexOutputNodes m) ?s1")
    case (Thrown e s2)
    then show ?thesis
      using v m by (simp add: build_def Let_def)
  next
    case (Returned u s2)
    then have r2: "registeredOnce b s2" using v by simp
    let ?fr = "fragmentOutputNodes (case nodeMaterial s2 of None \<Rightarrow> m | Some m2 \<Rightarrow> m2)"
    have f: "registeredOnce b (state_of (createRoots ext ?fr s2))"
      using createRoots_registered [OF assms(1) r2] .
    show ?thesis
    proof (cases "createRoots ext ?fr s2")
      case (Thrown e s3)
      then show ?thesis
        using f m Returned by (simp add: build_def Let_def)
    next
      case Returned3: (Returned w s3)
      then show ?thesis
        using f m Returned by (simp add: build_def Let_def registeredOnce_def)
    qed
  qed
qed

lemma nodesUpdated_registered:
  assumes "registeredOnce b s" and "\<not> deletesWrapper b (EvNodesUpdated isCreated n) s"
  shows "registeredOnce b (state_of (nodesUpdated isCreated n s))"
  using assms
  by (auto simp: nodesUpdated_def registeredOnce_def count_removeOutputNode
        split: option.splits)

lemma linksUpdated_material:
  "nodeMaterial (state_of (linksUpdated ext isCreated lnk s)) = nodeMaterial s"
  by (auto simp: linksUpdated_def linkDeleted_def syncWithNodeMaterialConnectionPoint_def
        Let_def split: option.splits)

lemma addValueNode_material:
  "nodeMaterial (state_of (addValueNode ext ty col conn s)) = nodeMaterial s"
  by (auto simp: addValueNode_def createNodeFromObject_def constructNode_def newNodeModel_def
        placeNode_def runPrepare_def newPortModel_def addPort_def Let_def
        split: option.splits)

lemma targetPortChanged_registered:
  assumes "\<And>m. count_list (outputRoots (snd (materialBuild ext m))) b
      = count_list (outputRoots m) b"
    and "registeredOnce b s"
  shows "registeredOnce b (state_of (targetPortChanged ext lnk s))"
proof (cases "SortInputOutput (portHeap s) (sourcePort lnk) (targetPort lnk)")
  case None
  then show ?thesis
    using assms(2) by (simp add: targetPortChanged_def)
next
  case (Some l)
  let ?inner = "case connection (portHeap s (link_input l)) of
      None \<Rightarrow> Returned () s
    | Some inC \<Rightarrow>
        (case connection (portHeap s (link_output l)) of
           Some outC \<Rightarrow>
             Returned ()
               (s\<lparr>pointHeap := connectTo ext outC inC (pointHeap s),
                  calls := calls s @ [ConnectTo outC inC]\<rparr>)
         | None \<Rightarrow> adoptConnection l inC s)"
  have i: "nodeMaterial (state_of ?inner) = nodeMaterial s"
    by (auto simp: adoptConnection_def syncWithNodeMaterialConnectionPoint_def Let_def
          split: option.splits)
  then have ri: "registeredOnce b (state_of ?inner)"
    using assms(2) registeredOnce_material by blast
  show ?thesis
  proof (cases ?inner)
    case (Thrown e s1)
    then show ?thesis
      using ri Some by (simp add: targetPortChanged_def)
  next
    case (Returned u s1)
    then have "registeredOnce b s1" using ri by simp
    then show ?thesis
      using Returned Some buildMaterial_registered [OF assms(1), of s1]
      by (simp add: targetPortChanged_def)
  qed
qed

lemma step_registered:
  assumes "\<And>options n fi t.
      registeredOnce b t \<Longrightarrow> registeredOnce b (state_of (prepare ext options n fi t))"
    and "\<And>m. count_list (outputRoots (snd (materialBuild ext m))) b
      = count_list (outputRoots m) b"
    and "registeredOnce b s" and "\<not> deletesWrapper b ev s"
  shows "registeredOnce b (step ext ev s)"
proof (cases ev)
  case (EvCreateNode options)
  then show ?thesis
    using createNodeFromObject_registered [OF assms(1) assms(3)] by simp
next
  case (EvAddValueNode ty col conn)
  then show ?thesis
    using assms(3) registeredOnce_material [OF addValueNode_material] by simp
next
  case (EvNodesUpdated isCreated n)
  then show ?thesis
    using nodesUpdated_registered [OF assms(3)] assms(4) by simp
next
  case (EvLinksUpdated isCreated lnk)
  then show ?thesis
    using assms(3) registeredOnce_material [OF linksUpdated_material] by simp
next
  case (EvTargetPortChanged lnk)
  then show ?thesis
    using targetPortChanged_registered [OF assms(2) assms(3)] by simp
next
  case EvRebuildRequired
  then show ?thesis
    using buildMaterial_registered [OF assms(2) assms(3)] assms(3)
    by (simp add: rebuildRequired_def)
next
  case EvResetRequired
  have r: "registeredOnce b (s\<lparr>rowPos := Map.empty\<rparr>)"
    using assms(3) by (simp add: registeredOnce_def)
  have b: "registeredOnce b (state_of (build ext (s\<lparr>rowPos := Map.empty\<rparr>)))"
    using build_registered [OF assms(1) r] .
  show ?thesis
  proof (cases "build ext (s\<lparr>rowPos := Map.empty\<rparr>)")
    case (Thrown e s1)
    then show ?thesis
      using b EvResetRequired by (simp add: resetRequired_def)
  next
    case (Returned u s1)
    then have "registeredOnce b s1" using b by simp
    then show ?thesis
      using Returned EvResetRequired buildMaterial_registered [OF assms(2), of s1]
      by (simp add: resetRequired_def)
  qed
next
  case EvFlush
  then show ?thesis
    using assms(3) by (simp add: registeredOnce_def flush_def Let_def split: option.splits)
qed

lemma runEvents_registered:
  assumes "\<And>options n fi t.
      registeredOnce b t \<Longrightarrow> registeredOnce b (state_of (prepare ext options n fi t))"
    and "\<And>m. count_list (outputRoots (snd (materialBuild ext m))) b
      = count_list (outputRoots m) b"
  shows "registeredOnce b s \<Longrightarrow> noWrapperDeleted ext b evs s
     \<Longrightarrow> registeredOnce b (runEvents ext evs s)"
proof (induction evs arbitrary: s)
  case Nil
  then show ?case by simp
next
  case (Cons ev evs)
  have "registeredOnce b (step ext ev s)"
    using step_registered [OF assms Cons.prems(1)] Cons.prems(2) by simp
  then show ?case
    using Cons.IH [of "step ext ev s"] Cons.prems(2) by simp
qed


lemmas construct_defs =
  createNodeFromObject_def constructNode_def newNodeModel_def placeNode_def runPrepare_def

lemmas example_defs =
  ext0_def editor0_def editor1_def editor2_def block0_def material0_def options0_def
  extLeaf_def extChain_def blockA_def editorChain_def wrapBlock_def

lemma editor3_eval:
  "addValueNode ext0 ''Vector3'' 1 None editor2 = Returned 4 editor3"
  "portHeap editor3 3 =
     \<lparr>port_name = ''Vector3'', position = ''output'', connection = None,
      defaultValue = Some (Vector3 0 0 0), parent = Some 4\<rparr>"
  "portHeap editor3 0 = portHeap editor2 0"
  "portHeap editor3 2 = portHeap editor2 2"
  "pointHeap editor3 = pointHeap editor0"
  "nodeMaterial editor3 = Some material0"
  "calls editor3 = []"
  by (simp_all add: editor3_def addValueNode_def construct_defs newPortModel_def addPort_def
      literalDefault_def Vector3_Zero_def example_defs Let_def)

subsection \<open>The claims\<close>



text \<open>
  C2. A call of \<open>createNodeFromObject\<close> with column \<open>c\<close> assigns the row
  \<open>lastRow[c] + 1\<close> when the column has an entry and \<open>0\<close> otherwise and stores it in
  \<open>_rowPos[c]\<close>; the node it constructs is placed at \<open>x = 1600 - 300 * c\<close> and
  \<open>y = 210 * row\<close>. This is the state in which \<open>prepare\<close> is called, and the state
  returned for options without a block. (The only call that constructs no node is the
  one that throws on a final merger without material; the row is stored there too.)
\<close>

theorem createNodeFromObject_row_position:
  "(case constructNode options s of
      Thrown e s1 \<Rightarrow>
        createNodeFromObject ext options s = Thrown e s1
        \<and> rowPos s1 (column options)
            = Some (case rowPos s (column options) of None \<Rightarrow> 0 | Some r \<Rightarrow> r + 1)
    | Returned (n, fi) s1 \<Rightarrow>
        createNodeFromObject ext options s = runPrepare ext options n fi s1
        \<and> (nodeMaterialBlock options = None \<longrightarrow>
              createNodeFromObject ext options s = Returned n s1)
        \<and> rowPos s1 (column options)
            = Some (case rowPos s (column options) of None \<Rightarrow> 0 | Some r \<Rightarrow> r + 1)
        \<and> node_x (nodeHeap s1 n) = 1600 - 300 * column options
        \<and> node_y (nodeHeap s1 n)
            = 210 * (case rowPos s (column options) of None \<Rightarrow> 0 | Some r \<Rightarrow> r + 1))"
  by (auto simp: construct_defs Let_def split: option.splits prod.splits outcome.splits)

text \<open>
  A literal node in column 2 of an editor whose column 2 has reached row 3: it gets
  row 4 and the position (1000, 840).
\<close>

theorem createNodeFromObject_row_position_witness:
  "nodeMaterialBlock (options0\<lparr>column := 2, nodeMaterialBlock := None\<rparr>) = None
   \<and> rowPos (state_of (createNodeFromObject ext0
        (options0\<lparr>column := 2, nodeMaterialBlock := None\<rparr>)
        (editor0\<lparr>rowPos := [2 \<mapsto> 3]\<rparr>))) 2 = Some 4
   \<and> node_x (nodeHeap (state_of (createNodeFromObject ext0
        (options0\<lparr>column := 2, nodeMaterialBlock := None\<rparr>)
        (editor0\<lparr>rowPos := [2 \<mapsto> 3]\<rparr>))) 0) = 1000
   \<and> node_y (nodeHeap (state_of (createNodeFromObject ext0
        (options0\<lparr>column := 2, nodeMaterialBlock := None\<rparr>)
        (editor0\<lparr>rowPos := [2 \<mapsto> 3]\<rparr>))) 0) = 840"
  using createNodeFromObject_row_position
    [where options = "options0\<lparr>column := 2, nodeMaterialBlock := None\<rparr>"
       and s = "editor0\<lparr>rowPos := [2 \<mapsto> 3]\<rparr>" and ext = ext0]
  by (simp add: construct_defs example_defs Let_def)

text \<open>
  C3. When the target port of a link is set, the orientation of the link resolves and
  only the input port is bound to a connection point \<open>X\<close> (the output port is the port
  of a literal node), the output port then references \<open>X\<close> and keeps its display name,
  the node that owns the output port records \<open>X\<close> as its connection, and the held
  value of \<open>X\<close> is the default value of the output port: the zero vector for a literal
  Vector3 node.
\<close>

theorem targetPortChanged_adopts_connection:
  assumes "SortInputOutput (portHeap s) (sourcePort lnk) (targetPort lnk) = Some l"
    and "connection (portHeap s (link_input l)) = Some X"
    and "connection (portHeap s (link_output l)) = None"
    and "parent (portHeap s (link_output l)) = Some n"
  shows "\<exists>s'. targetPortChanged ext lnk s = Returned () s'
      \<and> connection (portHeap s' (link_output l)) = Some X
      \<and> port_name (portHeap s' (link_output l)) = port_name (portHeap s (link_output l))
      \<and> node_connection (nodeHeap s' n) = Some X
      \<and> cp_value (pointHeap s' X) = defaultValue (portHeap s (link_output l))
      \<and> (defaultValue (portHeap s (link_output l)) = Some Vector3_Zero
            \<longrightarrow> cp_value (pointHeap s' X) = Some (Vector3 0 0 0))"
proof -
  obtain s1 where a: "adoptConnection l X s = Returned () s1"
    and p: "connection (portHeap s1 (link_output l)) = Some X"
      "port_name (portHeap s1 (link_output l)) = port_name (portHeap s (link_output l))"
      "node_connection (nodeHeap s1 n) = Some X"
      "cp_value (pointHeap s1 X) = defaultValue (portHeap s (link_output l))"
    using adoptConnection_effect [OF assms(3,4)] by blast
  obtain s2 where b: "buildMaterial ext s1 = Returned () s2"
    and h: "portHeap s2 = portHeap s1" "nodeHeap s2 = nodeHeap s1" "pointHeap s2 = pointHeap s1"
    using buildMaterial_heaps by blast
  have "targetPortChanged ext lnk s = Returned () (if nodeMaterial s1 \<noteq> None then s2 else s1)"
    using assms(1,2,3) a b by (simp add: targetPortChanged_def)
  then show ?thesis
    using p h by (auto simp: Vector3_Zero_def)
qed

text \<open>
  The scenario of the spec: the output port 3 of the literal Vector3 node made by
  \<open>addValueNode\<close> is linked to the input port 0, which is bound to connection point 5.
\<close>

theorem targetPortChanged_adopts_connection_witness:
  "SortInputOutput (portHeap editor3) (sourcePort literalLink) (targetPort literalLink)
     = Some \<lparr>link_input = 0, link_output = 3\<rparr>
   \<and> connection (portHeap editor3 0) = Some 5
   \<and> connection (portHeap editor3 3) = None
   \<and> parent (portHeap editor3 3) = Some 4
   \<and> defaultValue (portHeap editor3 3) = Some Vector3_Zero
   \<and> connection (portHeap (state_of (targetPortChanged ext0 literalLink editor3)) 3) = Some 5
   \<and> port_name (portHeap (state_of (targetPortChanged ext0 literalLink editor3)) 3)
       = ''Vector3''
   \<and> node_connection (nodeHeap (state_of (targetPortChanged ext0 literalLink editor3)) 4)
       = Some 5
   \<and> cp_value (pointHeap (state_of (targetPortChanged ext0 literalLink editor3)) 5)
       = Some (Vector3 0 0 0)"
proof -
  let ?l = "\<lparr>link_input = 0, link_output = 3\<rparr>"
  have h1: "SortInputOutput (portHeap editor3) (sourcePort literalLink)
      (targetPort literalLink) = Some ?l"
    by (simp add: SortInputOutput_def literalLink_def editor3_eval editor2_def)
  have h2: "connection (portHeap editor3 (link_input ?l)) = Some 5"
    by (simp add: editor3_eval editor2_def)
  have h3: "connection (portHeap editor3 (link_output ?l)) = None"
    by (simp add: editor3_eval)
  have h4: "parent (portHeap editor3 (link_output ?l)) = Some 4"
    by (simp add: editor3_eval)
  obtain s' where "targetPortChanged ext0 literalLink editor3 = Returned () s'"
    and "connection (portHeap s' (link_output ?l)) = Some 5"
    and "port_name (portHeap s' (link_output ?l)) = port_name (portHeap editor3 (link_output ?l))"
    and "node_connection (nodeHeap s' 4) = Some 5"
    and "cp_value (pointHeap s' 5) = defaultValue (portHeap editor3 (link_output ?l))"
    using targetPortChanged_adopts_connection [OF h1 h2 h3 h4, of ext0] by blast
  then show ?thesis
    using h1 h2 h3 h4 by (simp add: editor3_eval Vector3_Zero_def)
qed





text \<open>
  C5, as amended. When the editor has a node material, \<open>buildMaterial\<close> calls the build
  of the material once, returns without throwing, and notifies one log entry: an error
  entry carrying what the build threw, or the information entry of a successful build.
  When the editor has no node material, it returns at once: nothing is built and
  nothing is logged.
\<close>

theorem buildMaterial_boundary:
  "(nodeMaterial s = None \<longrightarrow> buildMaterial ext s = Returned () s)
   \<and> (nodeMaterial s = Some m \<longrightarrow>
        (\<exists>s'. buildMaterial ext s = Returned () s'
           \<and> calls s' = calls s @ [Build]
           \<and> logEntries s' = logEntries s @
               [case fst (materialBuild ext m) of
                  None \<Rightarrow> \<lparr>message = ''Node material build successful'', isError = False\<rparr>
                | Some err \<Rightarrow> \<lparr>message = err, isError = True\<rparr>]))"
  by (auto simp: buildMaterial_def Let_def split: option.splits prod.splits)

theorem buildMaterial_boundary_witness:
  "nodeMaterial editor0 = None
   \<and> buildMaterial ext0 editor0 = Returned () editor0
   \<and> nodeMaterial editor1 = Some material0
   \<and> calls (state_of (buildMaterial ext0 editor1)) = [Build]
   \<and> logEntries (state_of (buildMaterial ext0 editor1))
       = [\<lparr>message = ''Node material build successful'', isError = False\<rparr>]
   \<and> calls (state_of (buildMaterial extFailing editor1)) = [Build]
   \<and> logEntries (state_of (buildMaterial extFailing editor1))
       = [\<lparr>message = ''no output'', isError = True\<rparr>]"
  using buildMaterial_boundary [of editor0 ext0 material0]
    buildMaterial_boundary [of editor1 ext0 material0]
    buildMaterial_boundary [of editor1 extFailing material0]
  by (auto simp: example_defs extFailing_def)

text \<open>
  C5 as stated fails: on the editor without node material, a call of \<open>buildMaterial\<close>
  does not call the build of the material and notifies no log entry.
\<close>

theorem buildMaterial_without_material_counterexample:
  "calls (state_of (buildMaterial ext0 editor0)) = []
   \<and> logEntries (state_of (buildMaterial ext0 editor0)) = []"
  by (simp add: buildMaterial_def editor0_def)

text \<open>
  C6. The resolution of the orientation of a link does not depend on the order of its
  two ports: \<open>SortInputOutput a b\<close> and \<open>SortInputOutput b a\<close> are the same labelled
  pair, or are both Invalid.
\<close>

theorem SortInputOutput_commutative:
  "SortInputOutput ph a b = SortInputOutput ph b a"
  by (auto simp: SortInputOutput_def split: option.splits)

theorem SortInputOutput_commutative_witness:
  "SortInputOutput (portHeap editor2) (Some 0) (Some 2)
     = Some \<lparr>link_input = 0, link_output = 2\<rparr>
   \<and> SortInputOutput (portHeap editor2) (Some 2) (Some 0)
     = Some \<lparr>link_input = 0, link_output = 2\<rparr>
   \<and> SortInputOutput (portHeap editor2) (Some 1) (Some 0) = None
   \<and> SortInputOutput (portHeap editor2) (Some 0) (Some 1) = None
   \<and> SortInputOutput (portHeap editor2) None (Some 2) = None
   \<and> SortInputOutput (portHeap editor2) (Some 2) None = None"
  using SortInputOutput_commutative [of "portHeap editor2" "Some 0" "Some 2"]
    SortInputOutput_commutative [of "portHeap editor2" "Some 0" "Some 1"]
    SortInputOutput_commutative [of "portHeap editor2" None "Some 2"]
  by (simp add: SortInputOutput_def example_defs)

text \<open>
  C7, as amended. When \<open>createNodeFromObject\<close> constructs the node of a final merger,
  \<open>addOutputNode\<close> is called before \<open>prepare\<close>, the recursion into the predecessors: in
  the state in which \<open>prepare\<close> is called the block is registered, exactly once when the
  output roots held it at most once. From a state where the block is registered
  exactly once, it stays so through every run of editor events in which no node
  wrapping the block is deleted. The deletion of a node that wraps the block calls
  \<open>removeOutputNode\<close> and leaves the block unregistered, whether or not another node
  wraps it. The run is over collaborators that do not change the registration of the
  block themselves: a \<open>prepare\<close> that keeps it, as its calls of \<open>createNodeFromObject\<close>
  do, and a build of the material that leaves the output roots alone.
\<close>

theorem final_merger_registration:
  assumes "\<And>options n fi t.
      registeredOnce b t \<Longrightarrow> registeredOnce b (state_of (prepare ext options n fi t))"
    and "\<And>m. count_list (outputRoots (snd (materialBuild ext m))) b
      = count_list (outputRoots m) b"
  shows "(nodeMaterialBlock options = Some b \<and> isFinalMerger b \<and> nodeMaterial s = Some m
            \<and> count_list (outputRoots m) b \<le> 1 \<longrightarrow>
          (\<exists>n fi s1. constructNode options s = Returned (n, fi) s1
             \<and> createNodeFromObject ext options s
                 = (case prepare ext options n fi s1 of
                      Thrown e s' \<Rightarrow> Thrown e s' | Returned u s' \<Rightarrow> Returned n s')
             \<and> registeredOnce b s1
             \<and> calls s1 = calls s @ [AddOutputNode b]))
       \<and> (registeredOnce b s \<and> noWrapperDeleted ext b evs s \<longrightarrow>
            registeredOnce b (runEvents ext evs s))
       \<and> (block (nodeHeap s n) = Some b \<and> isFinalMerger b \<and> nodeMaterial s = Some m \<longrightarrow>
          (\<exists>s' m'. nodesUpdated False n s = Returned () s'
             \<and> nodeMaterial s' = Some m'
             \<and> count_list (outputRoots m') b = 0
             \<and> \<not> registeredOnce b s'
             \<and> calls s' = calls s @ [RemoveOutputNode b]))"
proof (intro conjI impI)
  assume a: "nodeMaterialBlock options = Some b \<and> isFinalMerger b \<and> nodeMaterial s = Some m
      \<and> count_list (outputRoots m) b \<le> 1"
  then have m: "nodeMaterial s = Some m" by simp
  have c: "count_list (outputRoots (addOutputNode b m)) b = 1"
    using a by (auto simp: count_addOutputNode count_list_0_iff [symmetric])
  show "\<exists>n fi s1. constructNode options s = Returned (n, fi) s1
         \<and> createNodeFromObject ext options s
             = (case prepare ext options n fi s1 of
                  Thrown e s' \<Rightarrow> Thrown e s' | Returned u s' \<Rightarrow> Returned n s')
         \<and> registeredOnce b s1
         \<and> calls s1 = calls s @ [AddOutputNode b]"
    using constructNode_registrar [OF m, of options] a c
    by (auto simp: createNodeFromObject_def runPrepare_def registeredOnce_def
          split: outcome.splits)
next
  assume "registeredOnce b s \<and> noWrapperDeleted ext b evs s"
  then show "registeredOnce b (runEvents ext evs s)"
    using runEvents_registered [OF assms] by blast
next
  assume "block (nodeHeap s n) = Some b \<and> isFinalMerger b \<and> nodeMaterial s = Some m"
  then show "\<exists>s' m'. nodesUpdated False n s = Returned () s'
         \<and> nodeMaterial s' = Some m'
         \<and> count_list (outputRoots m') b = 0
         \<and> \<not> registeredOnce b s'
         \<and> calls s' = calls s @ [RemoveOutputNode b]"
    by (simp add: nodesUpdated_def count_removeOutputNode registeredOnce_def)
qed

text \<open>
  On \<open>editor1\<close> with a \<open>prepare\<close> that makes nodes wrap their blocks: the node constructed
  for the root \<open>block0\<close> finds it registered once; it is still registered once after a
  reset, a literal node, the deletion of that literal node, a rebuild and the flush; the
  deletion of node 0, which wraps the root after the reset, unregisters it.
\<close>

theorem final_merger_registration_witness:
  "nodeMaterialBlock options0 = Some block0 \<and> isFinalMerger block0
   \<and> nodeMaterial editor1 = Some material0 \<and> count_list (outputRoots material0) block0 \<le> 1
   \<and> registeredOnce block0 (state_of (constructNode options0 editor1))
   \<and> calls (state_of (constructNode options0 editor1)) = [AddOutputNode block0]
   \<and> registeredOnce block0 editor1
   \<and> noWrapperDeleted extLeaf block0
        [EvResetRequired, EvAddValueNode ''Vector3'' 1 None, EvNodesUpdated False 1,
         EvRebuildRequired, EvFlush] editor1
   \<and> registeredOnce block0
        (runEvents extLeaf
           [EvResetRequired, EvAddValueNode ''Vector3'' 1 None, EvNodesUpdated False 1,
            EvRebuildRequired, EvFlush] editor1)
   \<and> block (nodeHeap (step extLeaf EvResetRequired editor1) 0) = Some block0
   \<and> \<not> registeredOnce block0
        (state_of (nodesUpdated False 0 (step extLeaf EvResetRequired editor1)))"
proof -
  let ?evs = "[EvResetRequired, EvAddValueNode ''Vector3'' 1 None, EvNodesUpdated False 1,
      EvRebuildRequired, EvFlush]"
  let ?r = "step extLeaf EvResetRequired editor1"
  have p: "\<And>options n fi t. registeredOnce block0 t
      \<Longrightarrow> registeredOnce block0 (state_of (prepare extLeaf options n fi t))"
    by (simp add: extLeaf_def ext0_def wrapBlock_def registeredOnce_def)
  have q: "\<And>m. count_list (outputRoots (snd (materialBuild extLeaf m))) block0
      = count_list (outputRoots m) block0"
    by (simp add: extLeaf_def ext0_def)
  have h: "nodeMaterialBlock options0 = Some block0" "isFinalMerger block0"
    "nodeMaterial editor1 = Some material0" "count_list (outputRoots material0) block0 \<le> 1"
    "registeredOnce block0 editor1" "calls editor1 = []"
    by (simp_all add: example_defs outputRoots_def registeredOnce_def)
  have r: "block (nodeHeap ?r 0) = Some block0" "nodeMaterial ?r = Some material0"
    by (simp_all add: resetRequired_def build_def buildMaterial_def construct_defs example_defs
        addOutputNode_def outputRoots_def Let_def)
  have n: "noWrapperDeleted extLeaf block0 ?evs editor1"
    by (simp add: resetRequired_def rebuildRequired_def build_def buildMaterial_def
        nodesUpdated_def addValueNode_def newPortModel_def addPort_def literalDefault_def
        Vector3_Zero_def construct_defs example_defs addOutputNode_def outputRoots_def Let_def)
  note w = final_merger_registration [OF p q]
  from w [where options = options0 and s = editor1 and m = material0] h
  obtain k fi s1 where "constructNode options0 editor1 = Returned (k, fi) s1"
    and "registeredOnce block0 s1" and "calls s1 = calls editor1 @ [AddOutputNode block0]"
    by blast
  moreover from w [where s = editor1 and evs = ?evs] h n
  have "registeredOnce block0 (runEvents extLeaf ?evs editor1)"
    by blast
  moreover from w [where s = ?r and n = 0 and m = material0] h r
  obtain s' where "nodesUpdated False 0 ?r = Returned () s'"
    and "\<not> registeredOnce block0 s'"
    by blast
  ultimately show ?thesis
    using h n r by simp
qed

text \<open>
  C7 as stated fails. A pass on \<open>editorChain\<close> constructs node 0 for the vertex root
  \<open>blockA\<close>, node 1 for its predecessor \<open>block0\<close>, which no node wrapped yet, and node 2 for
  the fragment root, \<open>block0\<close> again: \<open>build\<close> constructs the node of a root without
  looking at the nodes seen. Nodes 1 and 2 wrap the final merger \<open>block0\<close>, registered
  once. When node 2 is deleted, node 1 still wraps \<open>block0\<close> and \<open>block0\<close> is no longer
  registered.
\<close>

theorem shared_final_merger_counterexample:
  "model_nodes (model (state_of (build extChain editorChain))) = [0, 1, 2]
   \<and> block (nodeHeap (state_of (build extChain editorChain)) 1) = Some block0
   \<and> block (nodeHeap (state_of (build extChain editorChain)) 2) = Some block0
   \<and> isFinalMerger block0
   \<and> registeredOnce block0 (state_of (build extChain editorChain))
   \<and> block (nodeHeap (state_of (nodesUpdated False 2 (state_of (build extChain editorChain))))
        1) = Some block0
   \<and> count_list (outputRoots (the (nodeMaterial (state_of
        (nodesUpdated False 2 (state_of (build extChain editorChain))))))) block0 = 0"
  by (simp add: build_def nodesUpdated_def construct_defs example_defs addOutputNode_def
      removeOutputNode_def outputRoots_def registeredOnce_def Let_def)


text \<open>
  C8. When the orientation of the ports of a link does not resolve, the link is dropped
  silently: \<open>targetPortChanged\<close> returns without changing anything, and the removal of
  the link returns without touching the connection points, the material, the ports or
  the nodes, without any call on the material or its connection points and without a
  log entry.
\<close>

theorem invalid_orientation_dropped:
  assumes "SortInputOutput (portHeap s) (sourcePort lnk) (targetPort lnk) = None"
  shows "targetPortChanged ext lnk s = Returned () s
     \<and> (\<exists>s'. linksUpdated ext False lnk s = Returned () s'
           \<and> pointHeap s' = pointHeap s \<and> nodeMaterial s' = nodeMaterial s
           \<and> calls s' = calls s \<and> logEntries s' = logEntries s
           \<and> portHeap s' = portHeap s \<and> nodeHeap s' = nodeHeap s)"
  using assms by (simp add: targetPortChanged_def linksUpdated_def linkDeleted_def Let_def)

text \<open>A link between the two input ports 0 and 1 of \<open>editor2\<close>.\<close>

theorem invalid_orientation_dropped_witness:
  "SortInputOutput (portHeap editor2) (sourcePort inputsLink) (targetPort inputsLink) = None
   \<and> targetPortChanged ext0 inputsLink editor2 = Returned () editor2
   \<and> pointHeap (state_of (linksUpdated ext0 False inputsLink editor2)) = pointHeap editor2
   \<and> nodeMaterial (state_of (linksUpdated ext0 False inputsLink editor2)) = Some material0
   \<and> calls (state_of (linksUpdated ext0 False inputsLink editor2)) = []
   \<and> logEntries (state_of (linksUpdated ext0 False inputsLink editor2)) = []"
proof -
  have h: "SortInputOutput (portHeap editor2) (sourcePort inputsLink) (targetPort inputsLink)
      = None"
    by (simp add: SortInputOutput_def inputsLink_def example_defs)
  have e: "nodeMaterial editor2 = Some material0" "calls editor2 = []"
    "logEntries editor2 = []"
    by (simp_all add: example_defs)
  from invalid_orientation_dropped [OF h, of ext0] obtain s'
    where "targetPortChanged ext0 inputsLink editor2 = Returned () editor2"
      and "linksUpdated ext0 False inputsLink editor2 = Returned () s'"
      and "pointHeap s' = pointHeap editor2" and "nodeMaterial s' = nodeMaterial editor2"
      and "calls s' = calls editor2" and "logEntries s' = logEntries editor2"
    by blast
  then show ?thesis
    using h e by simp
qed

text \<open>
  C9. \<open>addValueNode\<close> without a connection returns a new Input node whose only port is
  a new unbound output port of that node, and the default value of the port is the
  one of its type name: the zero vector for Vector2, Vector3 and Vector4, the identity
  matrix for Matrix, white for Color3 and (1, 1, 1, 1) for Color4. For any other type
  name the port receives no default value.
\<close>

theorem addValueNode_defaults:
  "\<exists>n s'. addValueNode ext ty col None s = Returned n s'
      \<and> n = nextNode s
      \<and> node_ports (nodeHeap s' n) = [nextPort s]
      \<and> variant (nodeHeap s' n) = InputNodeModel
      \<and> position (portHeap s' (nextPort s)) = ''output''
      \<and> parent (portHeap s' (nextPort s)) = Some n
      \<and> connection (portHeap s' (nextPort s)) = None
      \<and> defaultValue (portHeap s' (nextPort s)) =
          (if ty = ''Vector2'' then Some (Vector2 0 0)
           else if ty = ''Vector3'' then Some (Vector3 0 0 0)
           else if ty = ''Vector4'' then Some (Vector4 0 0 0 0)
           else if ty = ''Matrix''
             then Some (Matrix [1, 0, 0, 0,  0, 1, 0, 0,  0, 0, 1, 0,  0, 0, 0, 1])
           else if ty = ''Color3'' then Some (Color3 1 1 1)
           else if ty = ''Color4'' then Some (Color4 1 1 1 1)
           else None)"
  by (simp add: addValueNode_def construct_defs newPortModel_def addPort_def literalDefault_def
      Vector2_Zero_def Vector3_Zero_def Vector4_Zero_def Matrix_Identity_def Color3_White_def
      Let_def)

text \<open>A Color3 node and a node of the unsupported type name Float, added to \<open>editor0\<close>.\<close>

theorem addValueNode_defaults_witness:
  "defaultValue (portHeap (state_of (addValueNode ext0 ''Color3'' 0 None editor0)) 0)
     = Some (Color3 1 1 1)
   \<and> defaultValue (portHeap (state_of (addValueNode ext0 ''Float'' 0 None editor0)) 0) = None
   \<and> position (portHeap (state_of (addValueNode ext0 ''Color3'' 0 None editor0)) 0)
       = ''output''"
proof -
  have n: "nextPort editor0 = 0"
    by (simp add: editor0_def)
  from addValueNode_defaults [of ext0 "''Color3''" 0 editor0] obtain n s'
    where "addValueNode ext0 ''Color3'' 0 None editor0 = Returned n s'"
      and "position (portHeap s' (nextPort editor0)) = ''output''"
      and "defaultValue (portHeap s' (nextPort editor0)) = Some (Color3 1 1 1)"
    by auto
  moreover from addValueNode_defaults [of ext0 "''Float''" 0 editor0] obtain k t'
    where "addValueNode ext0 ''Float'' 0 None editor0 = Returned k t'"
      and "defaultValue (portHeap t' (nextPort editor0)) = None"
    by auto
  ultimately show ?thesis
    using n by simp
qed

end
